theory Spec2Isabelle
  imports Complex_Main "HOL-Library.Multiset"
begin

section \<open>Data model of index.jsx\<close>

text \<open>
  JavaScript numbers are modelled by exact rationals (\<open>rat\<close>) where the source computes
  with fractions (probabilities, \<open>Math.random()\<close>, the cleared percentage) and by \<open>int\<close>
  where it holds integers (limits, counts, durations, seconds).  Rounding of doubles is
  not modelled.  A display string that contains non-ASCII characters is a list of Unicode
  code points.
\<close>

type_synonym ustring = "nat list"

text \<open>An entry of the \<open>PRIZES\<close> table: \<open>{ id, name, type, prob, limit }\<close>.\<close>

record prize =
  p_id :: string
  p_name :: ustring
  p_type :: string
  p_prob :: rat
  p_limit :: int

definition PRIZES :: "prize list" where
  "PRIZES =
    [ \<lparr>p_id = ''none_1'', p_name = [0x9298, 0x8B1D, 0x60E0, 0x9867],
        p_type = ''none'', p_prob = 38 / 100, p_limit = - 1\<rparr>,
      \<lparr>p_id = ''none_2'', p_name = [0x4E0B, 0x6B21, 0x518D, 0x52A0, 0x6CB9],
        p_type = ''none'', p_prob = 38 / 100, p_limit = - 1\<rparr>,
      \<lparr>p_id = ''ext_1h'', p_name = [0x31, 0x5C0F, 0x6642, 0x7E8C, 0x6642, 0x5238],
        p_type = ''win'', p_prob = 10 / 100, p_limit = - 1\<rparr>,
      \<lparr>p_id = ''disc_50'', p_name = [0x35, 0x30, 0x5143, 0x6298, 0x50F9, 0x5238],
        p_type = ''win'', p_prob = 10 / 100, p_limit = - 1\<rparr>,
      \<lparr>p_id = ''ext_2h'', p_name = [0x32, 0x5C0F, 0x6642, 0x7E8C, 0x6642, 0x5238],
        p_type = ''win'', p_prob = 34 / 1000, p_limit = 30\<rparr>,
      \<lparr>p_id = ''free_2h'',
        p_name = [0x32, 0x5C0F, 0x6642, 0x514D, 0x8CBB, 0x5305, 0x5EC2, 0x5377],
        p_type = ''win'', p_prob = 5 / 1000, p_limit = 15\<rparr>,
      \<lparr>p_id = ''free_4h'',
        p_name = [0x34, 0x5C0F, 0x6642, 0x514D, 0x8CBB, 0x5305, 0x5EC2, 0x5377],
        p_type = ''win'', p_prob = 1 / 1000, p_limit = 5\<rparr> ]"

text \<open>The form state \<open>formData\<close>: \<open>{ phone, date, branch, room, duration }\<close>.\<close>

record formData =
  phone :: string
  date :: string
  branch :: ustring
  room :: ustring
  duration :: int

text \<open>
  The document written by \<open>addDoc\<close> in \<open>handleSubmit\<close>: the spread \<open>...formData\<close>
  followed by the fields the handler adds.  \<open>grandDrawSerial\<close> is \<open>null\<close> or a string.
  \<open>orderNote\<close> is the key \<open>note\<close>, which only \<open>updateNote\<close> writes, so a
  document may lack it (\<open>None\<close>).  \<open>timestamp\<close> holds the \<open>seconds\<close> of the server timestamp when the
  document has one.
\<close>

record order = formData +
  userId :: string
  isGrandEligible :: bool
  grandDrawSerial :: "string option"
  scratchPrizeId :: string
  scratchPrizeName :: ustring
  scratchPrizeType :: string
  prizeSent :: bool
  orderNote :: "ustring option"
  timestamp :: "int option"

text \<open>
  The Firestore data the program touches: the collection \<open>orders\<close> (document id and
  data, in the order \<open>getDocs\<close> returns them) and the document \<open>stats/prize_counts\<close>
  (absent, or an object from prize id to count).
\<close>

record store =
  orders :: "(string \<times> order) list"
  prize_counts :: "(string \<times> int) list option"

datatype storeError = PermissionDenied | OtherStoreError

text \<open>
  What the program cannot decide by itself: which Firestore functions
  \<open>window.firebaseFirestore\<close> exposes, whether \<open>db\<close> is set, whether a request to the
  store rejects, and the id and server time the store gives a new document.
\<close>

record env =
  firestoreFns :: "string list"
  db :: bool
  getDocsError :: "storeError option"
  getDocError :: "storeError option"
  addDocError :: "storeError option"
  deleteDocError :: "string \<Rightarrow> storeError option"
  newDocId :: string
  serverSeconds :: int

definition getFirestoreFn :: "env \<Rightarrow> string \<Rightarrow> bool" where
  "getFirestoreFn e fnName = (fnName \<in> set (firestoreFns e))"

section \<open>determinePrize\<close>

text \<open>
  The selection loop \<open>for (const p of PRIZES) { cumulative += p.prob; if (rand <= cumulative)
  { selectedPrize = p; break; } }\<close>: the prize at which the loop breaks, \<open>None\<close> when it
  runs to the end without breaking.
\<close>

fun selectLoop :: "rat \<Rightarrow> rat \<Rightarrow> prize list \<Rightarrow> prize option" where
  "selectLoop rand cumulative [] = None"
| "selectLoop rand cumulative (p # ps) =
     (let cumulative' = cumulative + p_prob p
      in if rand \<le> cumulative' then Some p else selectLoop rand cumulative' ps)"

text \<open>
  \<open>let selectedPrize = PRIZES[0]\<close> followed by the loop, for a table whose first entry
  is \<open>p0\<close>: the prize the loop stopped at, or the initial value when it never stopped.
\<close>

definition weightedSelect :: "prize \<Rightarrow> prize list \<Rightarrow> rat \<Rightarrow> prize" where
  "weightedSelect p0 table rand =
     (case selectLoop rand 0 table of Some p \<Rightarrow> p | None \<Rightarrow> p0)"

text \<open>\<open>statsSnap.data()[selectedPrize.id] || 0\<close>, with \<open>currentCount = 0\<close> when the
  document does not exist.\<close>

definition currentCount :: "(string \<times> int) list option \<Rightarrow> string \<Rightarrow> int" where
  "currentCount snap pid =
     (case snap of
        None \<Rightarrow> 0
      | Some data \<Rightarrow> (case map_of data pid of None \<Rightarrow> 0 | Some c \<Rightarrow> c))"

text \<open>\<open>PRIZES.find(p => p.id === 'disc_50') || PRIZES[0]\<close>, for a table whose first
  entry is \<open>p0\<close>.\<close>

definition fallbackPrize :: "prize \<Rightarrow> prize list \<Rightarrow> prize" where
  "fallbackPrize p0 table =
     (case find (\<lambda>p. p_id p = ''disc_50'') table of Some f \<Rightarrow> f | None \<Rightarrow> p0)"

datatype jsError = TypeError

text \<open>
  \<open>determinePrize\<close> over a prize table.  The only exception that escapes it is the
  \<open>TypeError\<close> of \<open>selectedPrize.limit\<close> on an empty table, where \<open>PRIZES[0]\<close> is
  \<open>undefined\<close>; everything inside the \<open>try\<close> is caught and answered with
  \<open>PRIZES[0]\<close>.  The function reads \<open>prize_counts\<close> and writes nothing.
\<close>

definition determinePrizeFrom ::
    "prize list \<Rightarrow> env \<Rightarrow> store \<Rightarrow> rat \<Rightarrow> jsError + prize" where
  "determinePrizeFrom table e st rand =
     (case table of
        [] \<Rightarrow> Inl TypeError
      | p0 # _ \<Rightarrow>
          (let selectedPrize = weightedSelect p0 table rand
           in if p_limit selectedPrize \<noteq> - 1 then
                (if \<not> getFirestoreFn e ''doc'' \<or> \<not> getFirestoreFn e ''getDoc'' \<or> \<not> db e
                 then Inr selectedPrize
                 else (case getDocError e of
                         Some err \<Rightarrow> Inr p0
                       | None \<Rightarrow>
                           (if currentCount (prize_counts st) (p_id selectedPrize)
                                 \<ge> p_limit selectedPrize
                            then Inr (fallbackPrize p0 table)
                            else Inr selectedPrize)))
              else Inr selectedPrize))"

definition determinePrize :: "env \<Rightarrow> store \<Rightarrow> rat \<Rightarrow> jsError + prize" where
  "determinePrize = determinePrizeFrom PRIZES"

section \<open>handleSubmit\<close>

text \<open>The test of \<open>/^09\d{8}$/\<close>: the whole string is \<open>09\<close> followed by eight of the
  digits \<open>0\<close> to \<open>9\<close>.\<close>

definition isDigit :: "char \<Rightarrow> bool" where
  "isDigit c = (c \<in> set ''0123456789'')"

definition phoneRegex_test :: "string \<Rightarrow> bool" where
  "phoneRegex_test s =
     (case s of
        a # b # rest \<Rightarrow>
          a = CHR ''0'' \<and> b = CHR ''9'' \<and> length rest = 8 \<and> list_all isDigit rest
      | _ \<Rightarrow> False)"

text \<open>\<open>Number.prototype.toString()\<close> on an integer: its decimal digits, most
  significant first, after a minus sign when it is negative.\<close>

definition digitChar :: "nat \<Rightarrow> char" where
  "digitChar d = ''0123456789'' ! (d mod 10)"

fun decimal :: "nat \<Rightarrow> string" where
  "decimal n = (if n < 10 then [digitChar n] else decimal (n div 10) @ [digitChar (n mod 10)])"

declare decimal.simps [simp del]

definition toString :: "int \<Rightarrow> string" where
  "toString i = (if i < 0 then CHR ''-'' # decimal (nat (- i)) else decimal (nat i))"

text \<open>\<open>Math.floor(100000 + Math.random() * 900000).toString()\<close>, with the value of
  \<open>Math.random()\<close> as argument.\<close>

definition serialNumber :: "rat \<Rightarrow> int" where
  "serialNumber rand = \<lfloor>100000 + rand * 900000\<rfloor>"

definition generateSerial :: "rat \<Rightarrow> string" where
  "generateSerial rand = toString (serialNumber rand)"

text \<open>
  The messages \<open>handleSubmit\<close> passes to \<open>setError\<close>: the phone format message
  (\<open>InvalidInput\<close>), the database-not-ready message (\<open>NotReady\<close>), the
  already-took-part message (\<open>DuplicateEntry\<close>), and the two messages of the
  \<open>catch\<close> block (\<open>PermissionError\<close> for a permission error, \<open>SystemBusy\<close> for any
  other exception).
\<close>

datatype submitError = InvalidInput | NotReady | DuplicateEntry | PermissionError | SystemBusy

text \<open>
  What a call of \<open>handleSubmit\<close> leaves behind: nothing at all when there is no user
  (\<open>Ignored\<close>), an error message (\<open>Rejected\<close>), or the new document id, the serial
  and the prize put into the component state before the view changes to \<open>scratch\<close>
  (\<open>Registered\<close>).
\<close>

datatype submitOutcome =
    Ignored
  | Rejected submitError
  | Registered string "string option" prize

definition catchStoreError :: "storeError \<Rightarrow> submitError" where
  "catchStoreError err = (case err of PermissionDenied \<Rightarrow> PermissionError | OtherStoreError \<Rightarrow> SystemBusy)"

text \<open>The query \<open>where('phone', '==', formData.phone), where('date', '==', formData.date)\<close>
  on the collection \<open>orders\<close>.\<close>

definition duplicateQuery :: "formData \<Rightarrow> store \<Rightarrow> (string \<times> order) list" where
  "duplicateQuery fd st =
     filter (\<lambda>(i, d). phone d = phone fd \<and> date d = date fd) (orders st)"

text \<open>The object given to \<open>addDoc\<close>.\<close>

definition newOrder ::
    "env \<Rightarrow> string \<Rightarrow> formData \<Rightarrow> bool \<Rightarrow> string option \<Rightarrow> prize \<Rightarrow> order" where
  "newOrder e uid fd eligible serial pz =
     \<lparr> phone = phone fd, date = date fd, branch = branch fd, room = room fd,
       duration = duration fd,
       userId = uid,
       isGrandEligible = eligible,
       grandDrawSerial = serial,
       scratchPrizeId = p_id pz,
       scratchPrizeName = p_name pz,
       scratchPrizeType = p_type pz,
       prizeSent = False,
       orderNote = None,
       timestamp = Some (serverSeconds e) \<rparr>"

text \<open>
  \<open>handleSubmit\<close> with the user of the component state (\<open>None\<close> for \<open>null\<close>, else
  its \<open>uid\<close>), the form data, the value \<open>Math.random()\<close> gives \<open>generateSerial\<close> and
  the one it gives \<open>determinePrize\<close>.  It returns the outcome and the store afterwards.
\<close>

definition handleSubmit ::
    "env \<Rightarrow> string option \<Rightarrow> formData \<Rightarrow> rat \<Rightarrow> rat \<Rightarrow> store \<Rightarrow> submitOutcome \<times> store" where
  "handleSubmit e user fd serialRand prizeRand st =
     (case user of
        None \<Rightarrow> (Ignored, st)
      | Some uid \<Rightarrow>
          if \<not> phoneRegex_test (phone fd) then (Rejected InvalidInput, st)
          else if \<not> getFirestoreFn e ''collection'' \<or> \<not> getFirestoreFn e ''query''
                  \<or> \<not> getFirestoreFn e ''where'' \<or> \<not> getFirestoreFn e ''getDocs''
                  \<or> \<not> getFirestoreFn e ''addDoc'' \<or> \<not> getFirestoreFn e ''serverTimestamp''
                  \<or> \<not> db e
          then (Rejected NotReady, st)
          else
            (case getDocsError e of
               Some err \<Rightarrow> (Rejected (catchStoreError err), st)
             | None \<Rightarrow>
                 if duplicateQuery fd st \<noteq> [] then (Rejected DuplicateEntry, st)
                 else
                   (let eligible = (duration fd \<ge> 4);
                        serial = (if eligible then Some (generateSerial serialRand) else None)
                    in case determinePrize e st prizeRand of
                         Inl exn \<Rightarrow> (Rejected SystemBusy, st)
                       | Inr pz \<Rightarrow>
                           if \<not> getFirestoreFn e ''addDoc'' \<or> \<not> getFirestoreFn e ''collection''
                              \<or> \<not> getFirestoreFn e ''serverTimestamp'' \<or> \<not> db e
                           then (Rejected NotReady, st)
                           else
                             (case addDocError e of
                                Some err \<Rightarrow> (Rejected (catchStoreError err), st)
                              | None \<Rightarrow>
                                  (Registered (newDocId e) serial pz,
                                   st\<lparr>orders := orders st
                                        @ [(newDocId e, newOrder e uid fd eligible serial pz)]\<rparr>)))))"

text \<open>A run of registrations, one after the other, on the same store.\<close>

record request =
  r_env :: env
  r_user :: "string option"
  r_form :: formData
  r_serialRand :: rat
  r_prizeRand :: rat

fun registerAll :: "request list \<Rightarrow> store \<Rightarrow> store" where
  "registerAll [] st = st"
| "registerAll (r # rs) st =
     registerAll rs
       (snd (handleSubmit (r_env r) (r_user r) (r_form r) (r_serialRand r) (r_prizeRand r) st))"

section \<open>fetchAdminData and clearAllData\<close>

text \<open>
  \<open>Array.prototype.sort\<close> with a comparison function is a stable sort; for a consistent
  comparison its result is the one of stable insertion: an element goes before the first
  element it does not compare greater than.
\<close>

fun insertBy :: "('a \<Rightarrow> 'a \<Rightarrow> int) \<Rightarrow> 'a \<Rightarrow> 'a list \<Rightarrow> 'a list" where
  "insertBy cmp x [] = [x]"
| "insertBy cmp x (y # ys) = (if cmp x y \<le> 0 then x # y # ys else y # insertBy cmp x ys)"

definition sortBy :: "('a \<Rightarrow> 'a \<Rightarrow> int) \<Rightarrow> 'a list \<Rightarrow> 'a list" where
  "sortBy cmp xs = foldr (insertBy cmp) xs []"

text \<open>\<open>a.timestamp?.seconds || 0\<close> on a row \<open>{ id: d.id, ...d.data() }\<close>.\<close>

definition rowSeconds :: "string \<times> order \<Rightarrow> int" where
  "rowSeconds row = (case timestamp (snd row) of None \<Rightarrow> 0 | Some secs \<Rightarrow> secs)"

text \<open>The comparison \<open>(a, b) => timeB - timeA\<close>.\<close>

definition compareRows :: "string \<times> order \<Rightarrow> string \<times> order \<Rightarrow> int" where
  "compareRows a b = rowSeconds b - rowSeconds a"

datatype adminOutcome =
    AdminNotReady
  | AdminFailed storeError
  | AdminData "(string \<times> order) list"

text \<open>\<open>fetchAdminData(tab)\<close>: the rows given to \<open>setAdminData\<close>, or the alert.\<close>

definition fetchAdminData :: "env \<Rightarrow> string \<Rightarrow> store \<Rightarrow> adminOutcome" where
  "fetchAdminData e tab st =
     (if \<not> getFirestoreFn e ''collection'' \<or> \<not> getFirestoreFn e ''getDocs'' \<or> \<not> db e
      then AdminNotReady
      else
        (case getDocsError e of
           Some err \<Rightarrow> AdminFailed err
         | None \<Rightarrow>
             (let data = orders st;
                  data' = (if tab = ''grand''
                           then filter (\<lambda>d. isGrandEligible (snd d) = True) data
                           else filter (\<lambda>d. scratchPrizeType (snd d) = ''win'') data)
              in AdminData (sortBy compareRows data'))))"

datatype clearOutcome =
    Cancelled
  | ClearNotReady
  | ClearFailed storeError
  | Cleared nat

text \<open>\<open>deleteDoc\<close> of the order with the given id.\<close>

definition deleteDoc :: "string \<Rightarrow> store \<Rightarrow> store" where
  "deleteDoc i st = st\<lparr>orders := filter (\<lambda>d. fst d \<noteq> i) (orders st)\<rparr>"

text \<open>
  The deletions \<open>snapshot.docs.map(d => deleteDoc(...))\<close>: every one is issued; one that
  the store rejects leaves its document in place and is reported.
\<close>

fun deleteAll :: "env \<Rightarrow> string list \<Rightarrow> store \<Rightarrow> storeError list \<times> store" where
  "deleteAll e [] st = ([], st)"
| "deleteAll e (i # ids) st =
     (case deleteDocError e i of
        Some err \<Rightarrow> (let (errs, st') = deleteAll e ids st in (err # errs, st'))
      | None \<Rightarrow> deleteAll e ids (deleteDoc i st))"

text \<open>
  \<open>clearAllData\<close> with the answers to its two \<open>confirm\<close> dialogs.  \<open>Promise.all\<close>
  rejects as soon as one deletion rejects, and the \<open>catch\<close> block alerts.
\<close>

definition clearAllData :: "env \<Rightarrow> bool \<Rightarrow> bool \<Rightarrow> store \<Rightarrow> clearOutcome \<times> store" where
  "clearAllData e confirm1 confirm2 st =
     (if \<not> confirm1 then (Cancelled, st)
      else if \<not> confirm2 then (Cancelled, st)
      else if \<not> getFirestoreFn e ''collection'' \<or> \<not> getFirestoreFn e ''getDocs''
              \<or> \<not> getFirestoreFn e ''deleteDoc'' \<or> \<not> getFirestoreFn e ''doc'' \<or> \<not> db e
      then (ClearNotReady, st)
      else
        (case getDocsError e of
           Some err \<Rightarrow> (ClearFailed err, st)
         | None \<Rightarrow>
             (let snapshot = orders st;
                  (errs, st') = deleteAll e (map fst snapshot) st
              in case errs of
                   [] \<Rightarrow> (Cleared (length snapshot), st')
                 | err # _ \<Rightarrow> (ClearFailed err, st'))))"

text \<open>What the admin table gives its \<open>NoteEditor\<close>: \<open>row.note || ''\<close>.\<close>

definition noteValue :: "order \<Rightarrow> ustring" where
  "noteValue d = (case orderNote d of None \<Rightarrow> [] | Some n \<Rightarrow> n)"

section \<open>ScratchCard\<close>

text \<open>
  The state of the component: the size of the canvas, the alpha byte of each of its pixels
  (row by row: \<open>imageData.data[4 * k + 3]\<close> for pixel \<open>k\<close>), the handler variable
  \<open>isDrawing\<close>, the React state \<open>isRevealed\<close>, the ref \<open>isRevealedRef.current\<close>,
  whether \<open>canvas.style.opacity\<close> has been set to 0, and how many timers for
  \<open>onComplete\<close> have been set.
\<close>

record scratchCard =
  width :: nat
  height :: nat
  pixels :: "nat list"
  isDrawing :: bool
  isRevealed :: bool
  isRevealedRef :: bool
  fadedOut :: bool
  completeTimers :: nat


text \<open>
  \<open>scratch(x, y)\<close> fills a disc of radius 20 around \<open>(x, y)\<close> with the composite
  operation \<open>destination-out\<close>: a pixel whose centre lies in the disc loses its alpha.
  The anti-aliased rim of the disc is not modelled.
\<close>

definition inDisc :: "nat \<Rightarrow> int \<Rightarrow> int \<Rightarrow> nat \<Rightarrow> bool" where
  "inDisc w x y k =
     ((2 * int (k mod w) + 1 - 2 * x)\<^sup>2 + (2 * int (k div w) + 1 - 2 * y)\<^sup>2 \<le> 1600)"

definition scratch :: "int \<Rightarrow> int \<Rightarrow> scratchCard \<Rightarrow> scratchCard" where
  "scratch x y c =
     c\<lparr>pixels := map (\<lambda>(k, a). if inDisc (width c) x y k then 0 else a)
                     (zip [0 ..< length (pixels c)] (pixels c))\<rparr>"

text \<open>The percentage \<open>checkReveal\<close> computes: pixels with alpha below 128 over all
  pixels, times 100.\<close>

definition clearedPercent :: "nat list \<Rightarrow> rat" where
  "clearedPercent px =
     (of_nat (length (filter (\<lambda>a. a < 128) px)) / of_nat (length px)) * 100"

definition checkReveal :: "scratchCard \<Rightarrow> scratchCard" where
  "checkReveal c =
     (if clearedPercent (pixels c) > 75
      then c\<lparr>isRevealed := True, fadedOut := True, completeTimers := completeTimers c + 1\<rparr>
      else c)"

definition startDraw :: "scratchCard \<Rightarrow> scratchCard" where
  "startDraw c = c\<lparr>isDrawing := True\<rparr>"

definition endDraw :: "scratchCard \<Rightarrow> scratchCard" where
  "endDraw c = checkReveal (c\<lparr>isDrawing := False\<rparr>)"

definition draw :: "int \<Rightarrow> int \<Rightarrow> scratchCard \<Rightarrow> scratchCard" where
  "draw x y c =
     (if \<not> isDrawing c \<or> isRevealedRef c then c else checkReveal (scratch x y c))"

text \<open>The effect \<open>isRevealedRef.current = isRevealed\<close>, which React runs after a render
  in which \<open>isRevealed\<close> changed.\<close>

definition syncRef :: "scratchCard \<Rightarrow> scratchCard" where
  "syncRef c = c\<lparr>isRevealedRef := isRevealed c\<rparr>"

text \<open>
  The pointer events of the canvas: \<open>mousedown\<close>/\<open>touchstart\<close>,
  \<open>mousemove\<close>/\<open>touchmove\<close> at a position, \<open>mouseup\<close>/\<open>touchend\<close>.  An event
  runs its handler; the render and the effect that follow a state change are taken to be
  over before the next event is delivered.
\<close>

datatype pointerEvent = Down | Move int int | Up

fun handler :: "pointerEvent \<Rightarrow> scratchCard \<Rightarrow> scratchCard" where
  "handler Down c = startDraw c"
| "handler (Move x y) c = draw x y c"
| "handler Up c = endDraw c"

definition dispatch :: "pointerEvent \<Rightarrow> scratchCard \<Rightarrow> scratchCard" where
  "dispatch ev c = syncRef (handler ev c)"



section \<open>Vocabulary of the properties\<close>

text \<open>The cumulative probability of the first \<open>k\<close> entries of a table: the value of
  \<open>cumulative\<close> after \<open>k\<close> rounds of the selection loop.\<close>

definition cumulative :: "prize list \<Rightarrow> nat \<Rightarrow> rat" where
  "cumulative table k = sum_list (map p_prob (take k table))"

text \<open>An environment in which every Firestore function is loaded and no request fails.\<close>

definition readyEnv :: env where
  "readyEnv =
     \<lparr> firestoreFns = [''collection'', ''query'', ''where'', ''getDocs'', ''addDoc'',
                        ''serverTimestamp'', ''doc'', ''getDoc'', ''updateDoc'', ''deleteDoc''],
       db = True, getDocsError = None, getDocError = None, addDocError = None,
       deleteDocError = (\<lambda>i. None), newDocId = ''order-2'', serverSeconds = 1738368000 \<rparr>"

text \<open>A store in which \<open>free_4h\<close> has been counted five times, its limit.\<close>

definition exhaustedStore :: store where
  "exhaustedStore = \<lparr> orders = [], prize_counts = Some [(''free_4h'', 5)] \<rparr>"

text \<open>The same environment with a failing read of \<open>stats/prize_counts\<close>, an empty
  store, and a filled-in form.\<close>

definition failingReadEnv :: env where
  "failingReadEnv = readyEnv\<lparr>getDocError := Some OtherStoreError\<rparr>"

definition emptyStore :: store where
  "emptyStore = \<lparr> orders = [], prize_counts = None \<rparr>"

definition sampleForm :: formData where
  "sampleForm =
     \<lparr> phone = ''0912345678'', date = ''2025-02-01'', branch = [0x516B, 0x5FB7, 0x5E97],
       room = [0x6885], duration = 4 \<rparr>"

text \<open>A store that holds one order, registered with the filled-in form.\<close>

definition oneOrderStore :: store where
  "oneOrderStore =
     \<lparr> orders = [(''order-1'',
                    newOrder readyEnv ''demo-user-1'' sampleForm True (Some ''123456'') (PRIZES ! 3))],
       prize_counts = None \<rparr>"

text \<open>A registration request that draws \<open>free_4h\<close>.\<close>

definition sampleRequest :: request where
  "sampleRequest =
     \<lparr> r_env = readyEnv, r_user = Some ''demo-user-2'', r_form = sampleForm,
       r_serialRand = 1 / 2, r_prizeRand = 1999 / 2000 \<rparr>"

text \<open>A store with one order and a count for \<open>free_4h\<close>.\<close>

definition countedStore :: store where
  "countedStore =
     \<lparr> orders = [(''order-1'',
                    newOrder readyEnv ''demo-user-1'' sampleForm True (Some ''123456'') (PRIZES ! 6))],
       prize_counts = Some [(''free_4h'', 5)] \<rparr>"

text \<open>A store with three orders: two eligible for the grand draw, two with a winning
  scratch prize, created at seconds 100, 300 and 200.\<close>

definition adminStore :: store where
  "adminStore =
     \<lparr> orders =
         [(''a'', (newOrder readyEnv ''u1'' sampleForm True (Some ''111111'') (PRIZES ! 0))
                    \<lparr>timestamp := Some 100\<rparr>),
          (''b'', (newOrder readyEnv ''u2'' sampleForm False None (PRIZES ! 3))
                    \<lparr>timestamp := Some 300\<rparr>),
          (''c'', (newOrder readyEnv ''u3'' sampleForm True (Some ''333333'') (PRIZES ! 2))
                    \<lparr>timestamp := Some 200\<rparr>)],
       prize_counts = None \<rparr>"

section \<open>Weighted selection\<close>






lemma PRIZES_select:
  "weightedSelect (PRIZES ! 0) PRIZES r =
     (if r \<le> 38 / 100 then PRIZES ! 0
      else if r \<le> 76 / 100 then PRIZES ! 1
      else if r \<le> 86 / 100 then PRIZES ! 2
      else if r \<le> 96 / 100 then PRIZES ! 3
      else if r \<le> 994 / 1000 then PRIZES ! 4
      else if r \<le> 999 / 1000 then PRIZES ! 5
      else if r \<le> 1 then PRIZES ! 6
      else PRIZES ! 0)"
  by (simp add: weightedSelect_def PRIZES_def Let_def)






section \<open>Inventory guard\<close>

lemma PRIZES_Cons: "PRIZES = PRIZES ! 0 # tl PRIZES"
  by (simp add: PRIZES_def)

lemma PRIZES_find_disc_50: "find (\<lambda>p. p_id p = ''disc_50'') PRIZES = Some (PRIZES ! 3)"
  by (simp add: PRIZES_def)

lemma determinePrizeFrom_Cons:
  "table = p0 # rest \<Longrightarrow>
   determinePrizeFrom table e st rand =
     (let selectedPrize = weightedSelect p0 table rand
      in if p_limit selectedPrize \<noteq> - 1 then
           (if \<not> getFirestoreFn e ''doc'' \<or> \<not> getFirestoreFn e ''getDoc'' \<or> \<not> db e
            then Inr selectedPrize
            else (case getDocError e of
                    Some err \<Rightarrow> Inr p0
                  | None \<Rightarrow>
                      (if currentCount (prize_counts st) (p_id selectedPrize)
                            \<ge> p_limit selectedPrize
                       then Inr (fallbackPrize p0 table)
                       else Inr selectedPrize)))
         else Inr selectedPrize)"
  by hypsubst (simp add: determinePrizeFrom_def)

lemma determinePrize_unfold:
  "determinePrize e st rand =
     (let selectedPrize = weightedSelect (PRIZES ! 0) PRIZES rand
      in if p_limit selectedPrize \<noteq> - 1 then
           (if \<not> getFirestoreFn e ''doc'' \<or> \<not> getFirestoreFn e ''getDoc'' \<or> \<not> db e
            then Inr selectedPrize
            else (case getDocError e of
                    Some err \<Rightarrow> Inr (PRIZES ! 0)
                  | None \<Rightarrow>
                      (if currentCount (prize_counts st) (p_id selectedPrize)
                            \<ge> p_limit selectedPrize
                       then Inr (PRIZES ! 3)
                       else Inr selectedPrize)))
         else Inr selectedPrize)"
  using determinePrizeFrom_Cons [OF PRIZES_Cons, of e st rand]
  by (simp add: determinePrize_def fallbackPrize_def PRIZES_find_disc_50 Let_def
        split: option.splits)

lemma determinePrize_total: "\<exists>pz. determinePrize e st rand = Inr pz"
  by (simp add: determinePrize_unfold Let_def split: option.splits)

lemma PRIZES_limited_not_disc_50:
  assumes "p_limit (weightedSelect (PRIZES ! 0) PRIZES rand) \<noteq> - 1"
  shows "PRIZES ! 3 \<noteq> weightedSelect (PRIZES ! 0) PRIZES rand"
proof
  assume "PRIZES ! 3 = weightedSelect (PRIZES ! 0) PRIZES rand"
  then have "p_limit (PRIZES ! 3) \<noteq> - 1" using assms by simp
  then show False by (simp add: PRIZES_def)
qed

text \<open>
  C2.  When the selected prize has a finite limit and the read of \<open>prize_counts\<close>
  succeeds: if the stored count has reached the limit, \<open>determinePrize\<close> returns the
  entry with id \<open>disc_50\<close>, or the first entry of the table when there is none; on the
  fixed table that is \<open>disc_50\<close>, never the exhausted prize.  If the count is below the
  limit, the selected prize stands.
\<close>

theorem inventory_guard:
  assumes table: "table = p0 # rest"
    and sel: "sel = weightedSelect p0 table rand"
    and limited: "p_limit sel \<noteq> - 1"
    and fns: "getFirestoreFn e ''doc'' \<and> getFirestoreFn e ''getDoc'' \<and> db e"
    and read: "getDocError e = None"
  shows "(currentCount (prize_counts st) (p_id sel) \<ge> p_limit sel \<longrightarrow>
            determinePrizeFrom table e st rand =
              Inr (case find (\<lambda>p. p_id p = ''disc_50'') table of
                     Some f \<Rightarrow> f | None \<Rightarrow> table ! 0))
         \<and> (currentCount (prize_counts st) (p_id sel) < p_limit sel \<longrightarrow>
              determinePrizeFrom table e st rand = Inr sel)
         \<and> (table = PRIZES \<and> currentCount (prize_counts st) (p_id sel) \<ge> p_limit sel \<longrightarrow>
              determinePrize e st rand = Inr (PRIZES ! 3)
              \<and> p_id (PRIZES ! 3) = ''disc_50'' \<and> PRIZES ! 3 \<noteq> sel)"
proof -
  note unfold = determinePrizeFrom_Cons [OF table, of e st rand]
  have exhausted: "determinePrizeFrom table e st rand =
              Inr (case find (\<lambda>p. p_id p = ''disc_50'') table of
                     Some f \<Rightarrow> f | None \<Rightarrow> table ! 0)"
    if "currentCount (prize_counts st) (p_id sel) \<ge> p_limit sel"
    using that limited fns read unfold
    by (simp add: Let_def fallbackPrize_def sel table split: option.splits)
  have stands: "determinePrizeFrom table e st rand = Inr sel"
    if "currentCount (prize_counts st) (p_id sel) < p_limit sel"
    using that limited fns read unfold
    by (simp add: Let_def sel)
  have fixed: "determinePrize e st rand = Inr (PRIZES ! 3)
              \<and> p_id (PRIZES ! 3) = ''disc_50'' \<and> PRIZES ! 3 \<noteq> sel"
    if a: "table = PRIZES \<and> currentCount (prize_counts st) (p_id sel) \<ge> p_limit sel"
  proof -
    have "p0 = PRIZES ! 0" using table a by (simp add: PRIZES_def)
    then have sel': "sel = weightedSelect (PRIZES ! 0) PRIZES rand"
      using sel a by simp
    have "determinePrize e st rand = Inr (PRIZES ! 3)"
      using a limited fns read unfolding sel' determinePrize_unfold
      by (simp add: Let_def)
    moreover have "PRIZES ! 3 \<noteq> sel"
      using PRIZES_limited_not_disc_50 limited unfolding sel' by simp
    moreover have "p_id (PRIZES ! 3) = ''disc_50''" by (simp add: PRIZES_def)
    ultimately show ?thesis by simp
  qed
  show ?thesis using exhausted stands fixed by blast
qed

lemma select_9995: "weightedSelect (PRIZES ! 0) PRIZES (1999 / 2000) = PRIZES ! 6"
  by (simp add: PRIZES_select)

theorem inventory_guard_witness:
  "p_id (PRIZES ! 6) = ''free_4h'' \<and> p_limit (PRIZES ! 6) = 5
   \<and> weightedSelect (PRIZES ! 0) PRIZES (1999 / 2000) = PRIZES ! 6
   \<and> currentCount (prize_counts exhaustedStore) ''free_4h'' = 5
   \<and> determinePrize readyEnv exhaustedStore (1999 / 2000) = Inr (PRIZES ! 3)
   \<and> p_id (PRIZES ! 3) = ''disc_50''"
proof -
  have table: "PRIZES = PRIZES ! 0 # tl PRIZES" by (simp add: PRIZES_def)
  have sel: "PRIZES ! 6 = weightedSelect (PRIZES ! 0) PRIZES (1999 / 2000)"
    by (rule select_9995 [symmetric])
  have limited: "p_limit (PRIZES ! 6) \<noteq> - 1" by (simp add: PRIZES_def)
  have fns: "getFirestoreFn readyEnv ''doc'' \<and> getFirestoreFn readyEnv ''getDoc'' \<and> db readyEnv"
    by (simp add: getFirestoreFn_def readyEnv_def)
  have read: "getDocError readyEnv = None" by (simp add: readyEnv_def)
  have cnt: "currentCount (prize_counts exhaustedStore) (p_id (PRIZES ! 6)) = 5"
    by (simp add: currentCount_def exhaustedStore_def PRIZES_def)
  have "determinePrize readyEnv exhaustedStore (1999 / 2000) = Inr (PRIZES ! 3)"
    using inventory_guard [OF table sel limited fns read, of exhaustedStore] cnt
    by (simp add: PRIZES_def)
  then show ?thesis using cnt sel by (simp add: PRIZES_def)
qed

section \<open>Facts about handleSubmit\<close>

lemma handleSubmit_ready:
  assumes "phoneRegex_test (phone fd)"
    and "getFirestoreFn e ''collection'' \<and> getFirestoreFn e ''query''
         \<and> getFirestoreFn e ''where'' \<and> getFirestoreFn e ''getDocs''
         \<and> getFirestoreFn e ''addDoc'' \<and> getFirestoreFn e ''serverTimestamp'' \<and> db e"
    and "getDocsError e = None"
    and "duplicateQuery fd st = []"
    and "determinePrize e st prizeRand = Inr pz"
    and "addDocError e = None"
  shows "handleSubmit e (Some uid) fd serialRand prizeRand st =
     (Registered (newDocId e)
        (if duration fd \<ge> 4 then Some (generateSerial serialRand) else None) pz,
      st\<lparr>orders := orders st
           @ [(newDocId e,
               newOrder e uid fd (duration fd \<ge> 4)
                 (if duration fd \<ge> 4 then Some (generateSerial serialRand) else None) pz)]\<rparr>)"
  using assms by (simp add: handleSubmit_def Let_def)

lemma handleSubmit_Registered:
  assumes "handleSubmit e user fd serialRand prizeRand st = (Registered i serial pz, st')"
  shows "\<exists>uid. user = Some uid \<and> phoneRegex_test (phone fd) \<and> duplicateQuery fd st = []
           \<and> i = newDocId e
           \<and> serial = (if duration fd \<ge> 4 then Some (generateSerial serialRand) else None)
           \<and> determinePrize e st prizeRand = Inr pz
           \<and> st' = st\<lparr>orders := orders st
                       @ [(i, newOrder e uid fd (duration fd \<ge> 4) serial pz)]\<rparr>"
  using assms unfolding handleSubmit_def Let_def
  by (auto split: option.splits if_splits sum.splits)

lemma handleSubmit_unchanged:
  assumes "\<forall>i serial pz. fst (handleSubmit e user fd serialRand prizeRand st) \<noteq> Registered i serial pz"
  shows "snd (handleSubmit e user fd serialRand prizeRand st) = st"
  using assms unfolding handleSubmit_def Let_def
  by (auto split: option.splits if_splits sum.splits)

lemma handleSubmit_prize_counts:
  "prize_counts (snd (handleSubmit e user fd serialRand prizeRand st)) = prize_counts st"
  unfolding handleSubmit_def Let_def
  by (auto split: option.splits if_splits sum.splits)


lemma readyEnv_ready:
  "getFirestoreFn readyEnv ''collection'' \<and> getFirestoreFn readyEnv ''query''
   \<and> getFirestoreFn readyEnv ''where'' \<and> getFirestoreFn readyEnv ''getDocs''
   \<and> getFirestoreFn readyEnv ''addDoc'' \<and> getFirestoreFn readyEnv ''serverTimestamp''
   \<and> db readyEnv \<and> getDocsError readyEnv = None"
  by (simp add: readyEnv_def getFirestoreFn_def)

text \<open>Two registrations on the empty store: one of four hours, one of three.\<close>

lemma select_half: "weightedSelect (PRIZES ! 0) PRIZES (1 / 2) = PRIZES ! 1"
  by (simp add: PRIZES_select)

lemma determinePrize_half: "determinePrize e st (1 / 2) = Inr (PRIZES ! 1)"
  by (simp add: determinePrize_unfold select_half Let_def) (simp add: PRIZES_def)

lemma generateSerial_half: "generateSerial (1 / 2) = ''550000''"
  by (simp add: generateSerial_def serialNumber_def toString_def decimal.simps digitChar_def)

lemma sample_registration:
  "handleSubmit readyEnv (Some ''demo-user-2'') sampleForm (1 / 2) (1 / 2) emptyStore =
     (Registered ''order-2'' (Some ''550000'') (PRIZES ! 1),
      emptyStore\<lparr>orders :=
        [(''order-2'',
          newOrder readyEnv ''demo-user-2'' sampleForm True (Some ''550000'') (PRIZES ! 1))]\<rparr>)"
proof -
  have "phoneRegex_test (phone sampleForm)"
    by (simp add: sampleForm_def phoneRegex_test_def isDigit_def)
  moreover have "duplicateQuery sampleForm emptyStore = []"
    by (simp add: duplicateQuery_def emptyStore_def)
  moreover have "addDocError readyEnv = None" "newDocId readyEnv = ''order-2''"
    by (simp_all add: readyEnv_def)
  moreover have "duration sampleForm = 4" "orders emptyStore = []"
    by (simp_all add: sampleForm_def emptyStore_def)
  ultimately show ?thesis
    using handleSubmit_ready [of sampleForm readyEnv emptyStore "1 / 2" "PRIZES ! 1"
        "''demo-user-2''" "1 / 2"] readyEnv_ready determinePrize_half generateSerial_half
    by simp
qed


section \<open>Failure of the count read\<close>

text \<open>
  C3, as the code has it.  For a selected prize with a finite limit: when the read of
  \<open>prize_counts\<close> throws, the \<open>catch\<close> block returns \<open>PRIZES[0]\<close>
  (\<open>none_1\<close>), not the selected prize; when the functions \<open>doc\<close>, \<open>getDoc\<close> or
  \<open>db\<close> are missing, the selected prize is returned unchanged.  In every case
  \<open>determinePrize\<close> returns a prize, and a registration whose other steps succeed is
  persisted with the prize it returned.
\<close>

theorem read_failure_first_prize:
  assumes sel: "sel = weightedSelect (PRIZES ! 0) PRIZES prizeRand"
    and limited: "p_limit sel \<noteq> - 1"
  shows "(getFirestoreFn e ''doc'' \<and> getFirestoreFn e ''getDoc'' \<and> db e
            \<and> getDocError e = Some err \<longrightarrow>
              determinePrize e st prizeRand = Inr (PRIZES ! 0))
         \<and> (\<not> getFirestoreFn e ''doc'' \<or> \<not> getFirestoreFn e ''getDoc'' \<or> \<not> db e \<longrightarrow>
              determinePrize e st prizeRand = Inr sel)
         \<and> (\<exists>pz. determinePrize e st prizeRand = Inr pz)
         \<and> (getFirestoreFn e ''doc'' \<and> getFirestoreFn e ''getDoc''
            \<and> getDocError e = Some err
            \<and> phoneRegex_test (phone fd)
            \<and> getFirestoreFn e ''collection'' \<and> getFirestoreFn e ''query''
            \<and> getFirestoreFn e ''where'' \<and> getFirestoreFn e ''getDocs''
            \<and> getFirestoreFn e ''addDoc'' \<and> getFirestoreFn e ''serverTimestamp'' \<and> db e
            \<and> getDocsError e = None \<and> duplicateQuery fd st = [] \<and> addDocError e = None \<longrightarrow>
              (\<exists>serial. fst (handleSubmit e (Some uid) fd serialRand prizeRand st)
                          = Registered (newDocId e) serial (PRIZES ! 0)))"
proof -
  have thrown: "determinePrize e st prizeRand = Inr (PRIZES ! 0)"
    if "getFirestoreFn e ''doc'' \<and> getFirestoreFn e ''getDoc'' \<and> db e
        \<and> getDocError e = Some err"
    using that limited unfolding sel determinePrize_unfold by (simp add: Let_def)
  have missing: "determinePrize e st prizeRand = Inr sel"
    if "\<not> getFirestoreFn e ''doc'' \<or> \<not> getFirestoreFn e ''getDoc'' \<or> \<not> db e"
    using that limited unfolding sel determinePrize_unfold by (auto simp: Let_def)
  have registered: "\<exists>serial. fst (handleSubmit e (Some uid) fd serialRand prizeRand st)
                          = Registered (newDocId e) serial (PRIZES ! 0)"
    if a: "getFirestoreFn e ''doc'' \<and> getFirestoreFn e ''getDoc''
            \<and> getDocError e = Some err
            \<and> phoneRegex_test (phone fd)
            \<and> getFirestoreFn e ''collection'' \<and> getFirestoreFn e ''query''
            \<and> getFirestoreFn e ''where'' \<and> getFirestoreFn e ''getDocs''
            \<and> getFirestoreFn e ''addDoc'' \<and> getFirestoreFn e ''serverTimestamp'' \<and> db e
            \<and> getDocsError e = None \<and> duplicateQuery fd st = [] \<and> addDocError e = None"
  proof -
    have "determinePrize e st prizeRand = Inr (PRIZES ! 0)" using thrown a by blast
    then show ?thesis using a by (simp add: handleSubmit_ready)
  qed
  show ?thesis using thrown missing registered determinePrize_total by blast
qed

lemma select_97: "weightedSelect (PRIZES ! 0) PRIZES (97 / 100) = PRIZES ! 4"
  by (simp add: PRIZES_select)

theorem read_failure_first_prize_witness:
  "weightedSelect (PRIZES ! 0) PRIZES (97 / 100) = PRIZES ! 4
   \<and> p_limit (PRIZES ! 4) = 30
   \<and> getDocError failingReadEnv = Some OtherStoreError
   \<and> determinePrize failingReadEnv emptyStore (97 / 100) = Inr (PRIZES ! 0)
   \<and> (\<exists>serial. fst (handleSubmit failingReadEnv (Some ''demo-user-1'') sampleForm (1 / 2)
                       (97 / 100) emptyStore)
                 = Registered ''order-2'' serial (PRIZES ! 0))"
proof -
  have sel: "PRIZES ! 4 = weightedSelect (PRIZES ! 0) PRIZES (97 / 100)"
    by (rule select_97 [symmetric])
  have limited: "p_limit (PRIZES ! 4) \<noteq> - 1" by (simp add: PRIZES_def)
  note r = read_failure_first_prize [OF sel limited, of failingReadEnv OtherStoreError emptyStore
      sampleForm "''demo-user-1''" "1 / 2"]
  have env: "getFirestoreFn failingReadEnv ''doc''" "getFirestoreFn failingReadEnv ''getDoc''"
    "getFirestoreFn failingReadEnv ''collection''" "getFirestoreFn failingReadEnv ''query''"
    "getFirestoreFn failingReadEnv ''where''" "getFirestoreFn failingReadEnv ''getDocs''"
    "getFirestoreFn failingReadEnv ''addDoc''" "getFirestoreFn failingReadEnv ''serverTimestamp''"
    "db failingReadEnv" "getDocError failingReadEnv = Some OtherStoreError"
    "getDocsError failingReadEnv = None" "addDocError failingReadEnv = None"
    "newDocId failingReadEnv = ''order-2''"
    by (simp_all add: failingReadEnv_def readyEnv_def getFirestoreFn_def)
  have form: "phoneRegex_test (phone sampleForm)" "duplicateQuery sampleForm emptyStore = []"
    by (simp_all add: sampleForm_def phoneRegex_test_def isDigit_def duplicateQuery_def emptyStore_def)
  have "determinePrize failingReadEnv emptyStore (97 / 100) = Inr (PRIZES ! 0)"
    using r env by blast
  moreover have "\<exists>serial. fst (handleSubmit failingReadEnv (Some ''demo-user-1'') sampleForm (1 / 2)
                       (97 / 100) emptyStore)
                 = Registered ''order-2'' serial (PRIZES ! 0)"
    using r env form by simp
  ultimately show ?thesis using sel env by (simp add: PRIZES_def)
qed

text \<open>
  C3 as stated fails: with \<open>ext_2h\<close> selected and the read throwing, the prize returned
  is \<open>none_1\<close>, not \<open>ext_2h\<close>.
\<close>

theorem read_failure_counterexample:
  "weightedSelect (PRIZES ! 0) PRIZES (97 / 100) = PRIZES ! 4
   \<and> p_limit (PRIZES ! 4) = 30
   \<and> getDocError failingReadEnv = Some OtherStoreError
   \<and> determinePrize failingReadEnv emptyStore (97 / 100) = Inr (PRIZES ! 0)
   \<and> PRIZES ! 0 \<noteq> PRIZES ! 4
   \<and> p_id (PRIZES ! 0) = ''none_1'' \<and> p_id (PRIZES ! 4) = ''ext_2h''"
  by (simp add: determinePrize_unfold PRIZES_select Let_def failingReadEnv_def readyEnv_def
      getFirestoreFn_def)
     (simp add: PRIZES_def)

section \<open>Rejections\<close>

lemma handleSubmit_invalid:
  "\<not> phoneRegex_test (phone fd) \<Longrightarrow>
   handleSubmit e (Some uid) fd serialRand prizeRand st = (Rejected InvalidInput, st)"
  by (simp add: handleSubmit_def)

lemma handleSubmit_duplicate:
  assumes "phoneRegex_test (phone fd)"
    and "getFirestoreFn e ''collection'' \<and> getFirestoreFn e ''query''
         \<and> getFirestoreFn e ''where'' \<and> getFirestoreFn e ''getDocs''
         \<and> getFirestoreFn e ''addDoc'' \<and> getFirestoreFn e ''serverTimestamp'' \<and> db e"
    and "getDocsError e = None"
    and "duplicateQuery fd st \<noteq> []"
  shows "handleSubmit e (Some uid) fd serialRand prizeRand st = (Rejected DuplicateEntry, st)"
  using assms by (simp add: handleSubmit_def)

lemma duplicateQuery_empty_iff:
  "duplicateQuery fd st = []
     \<longleftrightarrow> (\<forall>d\<in>set (orders st). phone (snd d) = phone fd \<longrightarrow> date (snd d) \<noteq> date fd)"
  by (auto simp: duplicateQuery_def filter_empty_conv)

lemma handleSubmit_not_duplicate:
  assumes "duplicateQuery fd st = []"
  shows "fst (handleSubmit e user fd serialRand prizeRand st) \<noteq> Rejected DuplicateEntry"
  using assms unfolding handleSubmit_def Let_def catchStoreError_def
  by (auto split: option.splits if_splits sum.splits storeError.splits)

lemma phoneRegex_test_iff:
  "phoneRegex_test s
     \<longleftrightarrow> length s = 10 \<and> take 2 s = ''09'' \<and> (\<forall>c\<in>set (drop 2 s). c \<in> set ''0123456789'')"
proof (cases s)
  case Nil
  then show ?thesis by (simp add: phoneRegex_test_def)
next
  case (Cons a s')
  show ?thesis
  proof (cases s')
    case Nil
    then show ?thesis using Cons by (simp add: phoneRegex_test_def)
  next
    case (Cons b rest)
    have "take 2 (a # b # rest) = [a, b]" by (simp add: numeral_2_eq_2)
    moreover have "drop 2 (a # b # rest) = rest" by (simp add: numeral_2_eq_2)
    ultimately show ?thesis using \<open>s = a # s'\<close> Cons
      by (auto simp: phoneRegex_test_def isDigit_def list_all_iff)
  qed
qed

text \<open>
  C4.  With a user present: a phone that is not \<open>09\<close> followed by eight digits is
  rejected with \<open>InvalidInput\<close>; with the store reachable, an existing order that has
  both the submitted phone and the submitted date is rejected with \<open>DuplicateEntry\<close>.
  Both rejections leave the store as it was.  When no order has both the phone and the date
  (orders with the same phone and another date do not count), the duplicate check passes
  and, if \<open>addDoc\<close> succeeds, the registration is persisted.  Whatever the outcome, a
  call that does not register leaves the store unchanged.
\<close>

theorem rejected_before_write:
  "(\<not> (length (phone fd) = 10 \<and> take 2 (phone fd) = ''09''
              \<and> (\<forall>c\<in>set (drop 2 (phone fd)). c \<in> set ''0123456789'')) \<longrightarrow>
            handleSubmit e (Some uid) fd serialRand prizeRand st = (Rejected InvalidInput, st))
   \<and> (getFirestoreFn e ''collection'' \<and> getFirestoreFn e ''query''
        \<and> getFirestoreFn e ''where'' \<and> getFirestoreFn e ''getDocs''
        \<and> getFirestoreFn e ''addDoc'' \<and> getFirestoreFn e ''serverTimestamp'' \<and> db e
        \<and> getDocsError e = None \<and> phoneRegex_test (phone fd) \<longrightarrow>
          ((\<exists>d\<in>set (orders st). phone (snd d) = phone fd \<and> date (snd d) = date fd) \<longrightarrow>
             handleSubmit e (Some uid) fd serialRand prizeRand st = (Rejected DuplicateEntry, st))
          \<and> ((\<forall>d\<in>set (orders st). phone (snd d) = phone fd \<longrightarrow> date (snd d) \<noteq> date fd) \<longrightarrow>
                fst (handleSubmit e (Some uid) fd serialRand prizeRand st)
                  \<noteq> Rejected DuplicateEntry
                \<and> (addDocError e = None \<longrightarrow>
                     (\<exists>serial pz. fst (handleSubmit e (Some uid) fd serialRand prizeRand st)
                                    = Registered (newDocId e) serial pz))))
   \<and> ((\<forall>i serial pz. fst (handleSubmit e user fd serialRand prizeRand st)
                        \<noteq> Registered i serial pz) \<longrightarrow>
          snd (handleSubmit e user fd serialRand prizeRand st) = st)"
proof -
  have invalid: "handleSubmit e (Some uid) fd serialRand prizeRand st = (Rejected InvalidInput, st)"
    if "\<not> (length (phone fd) = 10 \<and> take 2 (phone fd) = ''09''
              \<and> (\<forall>c\<in>set (drop 2 (phone fd)). c \<in> set ''0123456789''))"
    using that handleSubmit_invalid phoneRegex_test_iff by blast
  have dup: "handleSubmit e (Some uid) fd serialRand prizeRand st = (Rejected DuplicateEntry, st)"
    if ready: "getFirestoreFn e ''collection'' \<and> getFirestoreFn e ''query''
        \<and> getFirestoreFn e ''where'' \<and> getFirestoreFn e ''getDocs''
        \<and> getFirestoreFn e ''addDoc'' \<and> getFirestoreFn e ''serverTimestamp'' \<and> db e
        \<and> getDocsError e = None \<and> phoneRegex_test (phone fd)"
      and ex: "\<exists>d\<in>set (orders st). phone (snd d) = phone fd \<and> date (snd d) = date fd"
  proof -
    have "duplicateQuery fd st \<noteq> []" using ex duplicateQuery_empty_iff by blast
    then show ?thesis using ready handleSubmit_duplicate by blast
  qed
  have pass: "fst (handleSubmit e (Some uid) fd serialRand prizeRand st) \<noteq> Rejected DuplicateEntry
            \<and> (addDocError e = None \<longrightarrow>
                 (\<exists>serial pz. fst (handleSubmit e (Some uid) fd serialRand prizeRand st)
                                = Registered (newDocId e) serial pz))"
    if ready: "getFirestoreFn e ''collection'' \<and> getFirestoreFn e ''query''
        \<and> getFirestoreFn e ''where'' \<and> getFirestoreFn e ''getDocs''
        \<and> getFirestoreFn e ''addDoc'' \<and> getFirestoreFn e ''serverTimestamp'' \<and> db e
        \<and> getDocsError e = None \<and> phoneRegex_test (phone fd)"
      and a: "\<forall>d\<in>set (orders st). phone (snd d) = phone fd \<longrightarrow> date (snd d) \<noteq> date fd"
  proof -
    have empty: "duplicateQuery fd st = []" using a duplicateQuery_empty_iff by blast
    obtain pz where pz: "determinePrize e st prizeRand = Inr pz"
      using determinePrize_total by blast
    have "addDocError e = None \<Longrightarrow>
          \<exists>serial pz. fst (handleSubmit e (Some uid) fd serialRand prizeRand st)
                                = Registered (newDocId e) serial pz"
      using handleSubmit_ready [of fd e st prizeRand pz uid serialRand] ready empty pz
      by simp
    then show ?thesis using handleSubmit_not_duplicate [OF empty] by blast
  qed
  have unchanged: "snd (handleSubmit e user fd serialRand prizeRand st) = st"
    if "\<forall>i serial pz. fst (handleSubmit e user fd serialRand prizeRand st)
                        \<noteq> Registered i serial pz"
    using that by (rule handleSubmit_unchanged)
  show ?thesis
    apply (intro conjI impI)
    subgoal using invalid by blast
    subgoal using dup by blast
    subgoal using pass by blast
    subgoal using pass by blast
    subgoal using unchanged by blast
    done
qed

theorem rejected_before_write_witness:
  "handleSubmit readyEnv (Some ''demo-user-2'') (sampleForm\<lparr>phone := ''0912-345-6''\<rparr>)
       (1 / 2) (1 / 2) oneOrderStore
     = (Rejected InvalidInput, oneOrderStore)
   \<and> handleSubmit readyEnv (Some ''demo-user-2'') sampleForm (1 / 2) (1 / 2) oneOrderStore
     = (Rejected DuplicateEntry, oneOrderStore)
   \<and> (\<exists>serial pz.
        fst (handleSubmit readyEnv (Some ''demo-user-2'') (sampleForm\<lparr>date := ''2025-02-02''\<rparr>)
               (1 / 2) (1 / 2) oneOrderStore)
          = Registered ''order-2'' serial pz)"
proof -
  have phone: "phoneRegex_test (phone sampleForm)"
    by (simp add: sampleForm_def phoneRegex_test_def isDigit_def)
  have a: "handleSubmit readyEnv (Some ''demo-user-2'') (sampleForm\<lparr>phone := ''0912-345-6''\<rparr>)
       (1 / 2) (1 / 2) oneOrderStore
     = (Rejected InvalidInput, oneOrderStore)"
    using rejected_before_write [of "sampleForm\<lparr>phone := ''0912-345-6''\<rparr>" readyEnv
        "''demo-user-2''" "1 / 2" "1 / 2" oneOrderStore]
    by simp
  have b: "handleSubmit readyEnv (Some ''demo-user-2'') sampleForm (1 / 2) (1 / 2) oneOrderStore
     = (Rejected DuplicateEntry, oneOrderStore)"
    using rejected_before_write [of sampleForm readyEnv
        "''demo-user-2''" "1 / 2" "1 / 2" oneOrderStore] readyEnv_ready phone
    by (simp add: oneOrderStore_def newOrder_def)
  have c: "\<exists>serial pz.
        fst (handleSubmit readyEnv (Some ''demo-user-2'') (sampleForm\<lparr>date := ''2025-02-02''\<rparr>)
               (1 / 2) (1 / 2) oneOrderStore)
          = Registered ''order-2'' serial pz"
    using rejected_before_write [of "sampleForm\<lparr>date := ''2025-02-02''\<rparr>" readyEnv
        "''demo-user-2''" "1 / 2" "1 / 2" oneOrderStore] readyEnv_ready phone
    by (simp add: oneOrderStore_def newOrder_def sampleForm_def readyEnv_def)
  show ?thesis using a b c by blast
qed

section \<open>Grand draw eligibility and serial\<close>









section \<open>clearAllData\<close>

lemma snd_deleteAll_Cons:
  "snd (deleteAll e (i # ids) st) =
     (case deleteDocError e i of
        Some err \<Rightarrow> snd (deleteAll e ids st)
      | None \<Rightarrow> snd (deleteAll e ids (deleteDoc i st)))"
  by (simp split: option.splits prod.splits)

lemma fst_deleteAll_Cons:
  "fst (deleteAll e (i # ids) st) =
     (case deleteDocError e i of
        Some err \<Rightarrow> err # fst (deleteAll e ids st)
      | None \<Rightarrow> fst (deleteAll e ids (deleteDoc i st)))"
  by (simp split: option.splits prod.splits)

lemma deleteAll_prize_counts: "prize_counts (snd (deleteAll e ids st)) = prize_counts st"
proof (induction ids arbitrary: st)
  case Nil
  then show ?case by simp
next
  case (Cons i ids)
  show ?case
    unfolding snd_deleteAll_Cons
    by (cases "deleteDocError e i") (simp_all add: Cons.IH deleteDoc_def)
qed

lemma deleteAll_orders:
  "orders (snd (deleteAll e ids st)) =
     filter (\<lambda>d. \<not> (fst d \<in> set ids \<and> deleteDocError e (fst d) = None)) (orders st)"
proof (induction ids arbitrary: st)
  case Nil
  then show ?case by simp
next
  case (Cons i ids)
  show ?case
  proof (cases "deleteDocError e i")
    case None
    have "orders (snd (deleteAll e (i # ids) st)) = orders (snd (deleteAll e ids (deleteDoc i st)))"
      using None by (simp add: snd_deleteAll_Cons del: deleteAll.simps)
    also have "\<dots> = filter (\<lambda>d. \<not> (fst d \<in> set ids \<and> deleteDocError e (fst d) = None))
                        (filter (\<lambda>d. fst d \<noteq> i) (orders st))"
      by (simp add: Cons.IH deleteDoc_def)
    also have "\<dots> = filter (\<lambda>d. \<not> (fst d \<in> set (i # ids) \<and> deleteDocError e (fst d) = None))
                        (orders st)"
      using None by (auto intro: filter_cong)
    finally show ?thesis .
  next
    case (Some err)
    have "orders (snd (deleteAll e (i # ids) st)) = orders (snd (deleteAll e ids st))"
      using Some by (simp add: snd_deleteAll_Cons del: deleteAll.simps)
    also have "\<dots> = filter (\<lambda>d. \<not> (fst d \<in> set ids \<and> deleteDocError e (fst d) = None))
                        (orders st)"
      by (rule Cons.IH)
    also have "\<dots> = filter (\<lambda>d. \<not> (fst d \<in> set (i # ids) \<and> deleteDocError e (fst d) = None))
                        (orders st)"
      using Some by (auto intro: filter_cong)
    finally show ?thesis .
  qed
qed

lemma deleteAll_errors:
  "fst (deleteAll e ids st) = [] \<longleftrightarrow> (\<forall>i\<in>set ids. deleteDocError e i = None)"
proof (induction ids arbitrary: st)
  case Nil
  then show ?case by simp
next
  case (Cons i ids)
  show ?case
    unfolding fst_deleteAll_Cons
    by (cases "deleteDocError e i") (simp_all add: Cons.IH)
qed

lemma clearAllData_prize_counts:
  "prize_counts (snd (clearAllData e confirm1 confirm2 st)) = prize_counts st"
proof -
  have "prize_counts (snd (deleteAll e (map fst (orders st)) st)) = prize_counts st"
    by (rule deleteAll_prize_counts)
  then show ?thesis
    unfolding clearAllData_def Let_def
    by (auto split: option.splits prod.splits list.splits)
qed

lemma clearAllData_Cleared:
  assumes "clearAllData e confirm1 confirm2 st = (Cleared n, st')"
  shows "orders st' = [] \<and> n = length (orders st)"
proof -
  let ?r = "deleteAll e (map fst (orders st)) st"
  have r: "fst ?r = []" "st' = snd ?r" "n = length (orders st)"
    using assms unfolding clearAllData_def Let_def
    by (auto split: option.splits prod.splits list.splits if_splits)
  have "\<forall>i\<in>set (map fst (orders st)). deleteDocError e i = None"
    using r(1) deleteAll_errors by blast
  then have "orders (snd ?r) = []"
    unfolding deleteAll_orders by (auto simp: filter_empty_conv)
  then show ?thesis using r by simp
qed

lemma clearAllData_succeeds:
  assumes "confirm1 \<and> confirm2"
    and "getFirestoreFn e ''collection'' \<and> getFirestoreFn e ''getDocs''
         \<and> getFirestoreFn e ''deleteDoc'' \<and> getFirestoreFn e ''doc'' \<and> db e"
    and "getDocsError e = None"
    and "\<forall>d\<in>set (orders st). deleteDocError e (fst d) = None"
  shows "fst (clearAllData e confirm1 confirm2 st) = Cleared (length (orders st))"
proof -
  let ?r = "deleteAll e (map fst (orders st)) st"
  have "fst ?r = []" using assms(4) deleteAll_errors [of e "map fst (orders st)" st] by simp
  then show ?thesis
    using assms(1-3) unfolding clearAllData_def Let_def
    by (auto split: prod.splits list.splits)
qed

text \<open>
  C6, as the code has it.  When \<open>clearAllData\<close> completes successfully no order
  remains; it does so whenever both dialogs are confirmed, the functions are loaded and no
  request fails.  It deletes documents of the collection \<open>orders\<close> only: the document
  \<open>stats/prize_counts\<close> is left exactly as it was, whatever the outcome.
\<close>

theorem clearAll_deletes_orders_only:
  "(clearAllData e confirm1 confirm2 st = (Cleared n, st') \<longrightarrow>
      orders st' = [] \<and> n = length (orders st) \<and> prize_counts st' = prize_counts st)
   \<and> (confirm1 \<and> confirm2
        \<and> getFirestoreFn e ''collection'' \<and> getFirestoreFn e ''getDocs''
        \<and> getFirestoreFn e ''deleteDoc'' \<and> getFirestoreFn e ''doc'' \<and> db e
        \<and> getDocsError e = None
        \<and> (\<forall>d\<in>set (orders st). deleteDocError e (fst d) = None) \<longrightarrow>
          fst (clearAllData e confirm1 confirm2 st) = Cleared (length (orders st)))
   \<and> prize_counts (snd (clearAllData e confirm1 confirm2 st)) = prize_counts st"
proof -
  have a: "orders st' = [] \<and> n = length (orders st) \<and> prize_counts st' = prize_counts st"
    if c: "clearAllData e confirm1 confirm2 st = (Cleared n, st')"
  proof -
    have "prize_counts st' = prize_counts st"
      using clearAllData_prize_counts [of e confirm1 confirm2 st] c by simp
    then show ?thesis using clearAllData_Cleared [OF c] by simp
  qed
  have b: "fst (clearAllData e confirm1 confirm2 st) = Cleared (length (orders st))"
    if "confirm1 \<and> confirm2
        \<and> getFirestoreFn e ''collection'' \<and> getFirestoreFn e ''getDocs''
        \<and> getFirestoreFn e ''deleteDoc'' \<and> getFirestoreFn e ''doc'' \<and> db e
        \<and> getDocsError e = None
        \<and> (\<forall>d\<in>set (orders st). deleteDocError e (fst d) = None)"
    using that clearAllData_succeeds [of confirm1 confirm2 e st] by blast
  show ?thesis using a b clearAllData_prize_counts by blast
qed

lemma clear_counted:
  "clearAllData readyEnv True True countedStore =
     (Cleared 1, \<lparr> orders = [], prize_counts = Some [(''free_4h'', 5)] \<rparr>)"
  by (simp add: clearAllData_def Let_def getFirestoreFn_def readyEnv_def countedStore_def
      deleteDoc_def)

theorem clearAll_deletes_orders_only_witness:
  "orders (snd (clearAllData readyEnv True True countedStore)) = []
   \<and> fst (clearAllData readyEnv True True countedStore) = Cleared 1
   \<and> prize_counts (snd (clearAllData readyEnv True True countedStore))
       = Some [(''free_4h'', 5)]"
proof -
  note c = clearAll_deletes_orders_only [of readyEnv True True countedStore 1
      "\<lparr> orders = [], prize_counts = Some [(''free_4h'', 5)] \<rparr>"]
  have ready: "getFirestoreFn readyEnv ''collection'' \<and> getFirestoreFn readyEnv ''getDocs''
        \<and> getFirestoreFn readyEnv ''deleteDoc'' \<and> getFirestoreFn readyEnv ''doc'' \<and> db readyEnv
        \<and> getDocsError readyEnv = None
        \<and> (\<forall>d\<in>set (orders countedStore). deleteDocError readyEnv (fst d) = None)"
    by (simp add: getFirestoreFn_def readyEnv_def)
  have len: "length (orders countedStore) = 1" by (simp add: countedStore_def)
  have counts: "prize_counts countedStore = Some [(''free_4h'', 5)]"
    by (simp add: countedStore_def)
  have "fst (clearAllData readyEnv True True countedStore) = Cleared 1"
    using c ready len by simp
  moreover have "prize_counts (snd (clearAllData readyEnv True True countedStore))
       = Some [(''free_4h'', 5)]"
    using c counts by simp
  moreover have "orders (snd (clearAllData readyEnv True True countedStore)) = []"
    using c clear_counted by simp
  ultimately show ?thesis by simp
qed

text \<open>
  C6 as stated fails: after a successful \<open>clearAllData\<close> the count of \<open>free_4h\<close> is
  still 5.
\<close>

theorem clearAll_counts_counterexample:
  "fst (clearAllData readyEnv True True countedStore) = Cleared 1
   \<and> orders (snd (clearAllData readyEnv True True countedStore)) = []
   \<and> prize_counts (snd (clearAllData readyEnv True True countedStore)) = Some [(''free_4h'', 5)]
   \<and> prize_counts (snd (clearAllData readyEnv True True countedStore)) \<noteq> None
   \<and> prize_counts (snd (clearAllData readyEnv True True countedStore)) \<noteq> Some []
   \<and> currentCount (prize_counts (snd (clearAllData readyEnv True True countedStore))) ''free_4h''
       = 5"
  by (simp add: clear_counted currentCount_def)

section \<open>Registration and the prize counts\<close>

lemma registerAll_prize_counts: "prize_counts (registerAll rs st) = prize_counts st"
  by (induction rs arbitrary: st) (simp_all add: handleSubmit_prize_counts)

lemma determinePrize_reads_counts:
  assumes "prize_counts st' = prize_counts st"
  shows "determinePrize e st' rand = determinePrize e st rand"
  unfolding determinePrize_unfold assms ..

text \<open>
  C7.  \<open>handleSubmit\<close> never writes \<open>prize_counts\<close>: \<open>determinePrize\<close> only reads
  it and the only write is the \<open>addDoc\<close> of the order.  So after any run of
  registrations every stored count is what it was, a prize that was below its limit is
  still below it, and the guard of \<open>determinePrize\<close> decides as before.
\<close>

theorem registration_keeps_counts:
  "prize_counts (snd (handleSubmit e user fd serialRand prizeRand st)) = prize_counts st
   \<and> prize_counts (registerAll rs st) = prize_counts st
   \<and> (\<forall>pid. currentCount (prize_counts (registerAll rs st)) pid
              = currentCount (prize_counts st) pid)
   \<and> (\<forall>p\<in>set PRIZES. currentCount (prize_counts st) (p_id p) < p_limit p \<longrightarrow>
         currentCount (prize_counts (registerAll rs st)) (p_id p) < p_limit p)
   \<and> (\<forall>e' rand. determinePrize e' (registerAll rs st) rand = determinePrize e' st rand)"
proof -
  have one: "prize_counts (snd (handleSubmit e user fd serialRand prizeRand st)) = prize_counts st"
    by (rule handleSubmit_prize_counts)
  have run: "prize_counts (registerAll rs st) = prize_counts st"
    by (rule registerAll_prize_counts)
  have guard: "determinePrize e' (registerAll rs st) rand = determinePrize e' st rand" for e' rand
    using run by (rule determinePrize_reads_counts)
  show ?thesis using one guard by (simp add: run)
qed

theorem registration_keeps_counts_witness:
  "prize_counts (registerAll [sampleRequest, sampleRequest, sampleRequest] emptyStore) = None
   \<and> currentCount (prize_counts emptyStore) ''free_4h'' = 0
   \<and> p_limit (PRIZES ! 6) = 5 \<and> PRIZES ! 6 \<in> set PRIZES
   \<and> currentCount
        (prize_counts (registerAll [sampleRequest, sampleRequest, sampleRequest] emptyStore))
        (p_id (PRIZES ! 6)) < p_limit (PRIZES ! 6)"
proof -
  note keep = registration_keeps_counts [of readyEnv None sampleForm 0 0 emptyStore
      "[sampleRequest, sampleRequest, sampleRequest]"]
  have mem: "PRIZES ! 6 \<in> set PRIZES" by (simp add: PRIZES_def)
  have below: "currentCount (prize_counts emptyStore) (p_id (PRIZES ! 6)) < p_limit (PRIZES ! 6)"
    by (simp add: currentCount_def emptyStore_def PRIZES_def)
  have "currentCount
        (prize_counts (registerAll [sampleRequest, sampleRequest, sampleRequest] emptyStore))
        (p_id (PRIZES ! 6)) < p_limit (PRIZES ! 6)"
    using keep mem below by blast
  moreover have "prize_counts (registerAll [sampleRequest, sampleRequest, sampleRequest] emptyStore) = None"
    using keep by (simp add: emptyStore_def)
  ultimately show ?thesis using mem
    by (simp add: currentCount_def emptyStore_def) (simp add: PRIZES_def)
qed

section \<open>fetchAdminData\<close>

lemma mset_insertBy: "mset (insertBy cmp x xs) = add_mset x (mset xs)"
  by (induction xs) simp_all

lemma mset_sortBy: "mset (sortBy cmp xs) = mset xs"
  by (induction xs) (simp_all add: sortBy_def mset_insertBy)

lemma set_insertBy: "set (insertBy cmp x xs) = insert x (set xs)"
  by (induction xs) auto

lemma newest_first_insertBy:
  "sorted_wrt (\<lambda>a b. rowSeconds a \<ge> rowSeconds b) xs \<Longrightarrow>
   sorted_wrt (\<lambda>a b. rowSeconds a \<ge> rowSeconds b) (insertBy compareRows x xs)"
proof (induction xs)
  case Nil
  then show ?case by simp
next
  case (Cons y ys)
  show ?case
  proof (cases "compareRows x y \<le> 0")
    case True
    then have "rowSeconds y \<le> rowSeconds x" by (simp add: compareRows_def)
    then show ?thesis using True Cons.prems by auto
  next
    case False
    then have "rowSeconds x \<le> rowSeconds y" by (simp add: compareRows_def)
    then show ?thesis using False Cons by (auto simp: set_insertBy)
  qed
qed

lemma newest_first_sortBy:
  "sorted_wrt (\<lambda>a b. rowSeconds a \<ge> rowSeconds b) (sortBy compareRows xs)"
proof (induction xs)
  case Nil
  then show ?case by (simp add: sortBy_def)
next
  case (Cons x xs)
  have "sortBy compareRows (x # xs) = insertBy compareRows x (sortBy compareRows xs)"
    by (simp add: sortBy_def)
  then show ?case using Cons newest_first_insertBy by simp
qed

lemma fetchAdminData_rows:
  assumes "fetchAdminData e tab st = AdminData rows"
  shows "rows = sortBy compareRows
                  (if tab = ''grand''
                   then filter (\<lambda>d. isGrandEligible (snd d)) (orders st)
                   else filter (\<lambda>d. scratchPrizeType (snd d) = ''win'') (orders st))"
  using assms unfolding fetchAdminData_def Let_def
  by (auto split: if_splits option.splits)

lemma fetchAdminData_ready:
  assumes "getFirestoreFn e ''collection'' \<and> getFirestoreFn e ''getDocs'' \<and> db e"
    and "getDocsError e = None"
  shows "\<exists>rows. fetchAdminData e tab st = AdminData rows"
  using assms unfolding fetchAdminData_def Let_def by simp

text \<open>
  C8.  The rows of the grand-draw tab are exactly the orders with
  \<open>isGrandEligible = true\<close>, whatever their prize; the rows of the instant-win tab are
  exactly the orders with \<open>scratchPrizeType = 'win'\<close>, whatever their eligibility.  Both
  lists are in descending order of the seconds of the creation timestamp (0 for an order
  without one), and \<open>fetchAdminData\<close> produces them whenever the store is reachable.
\<close>

theorem admin_lists:
  "(fetchAdminData e ''grand'' st = AdminData rows \<longrightarrow>
      mset rows = mset (filter (\<lambda>d. isGrandEligible (snd d)) (orders st))
      \<and> set rows = {d \<in> set (orders st). isGrandEligible (snd d)}
      \<and> sorted_wrt (\<lambda>a b. rowSeconds a \<ge> rowSeconds b) rows)
   \<and> (fetchAdminData e ''instant'' st = AdminData rows \<longrightarrow>
      mset rows = mset (filter (\<lambda>d. scratchPrizeType (snd d) = ''win'') (orders st))
      \<and> set rows = {d \<in> set (orders st). scratchPrizeType (snd d) = ''win''}
      \<and> sorted_wrt (\<lambda>a b. rowSeconds a \<ge> rowSeconds b) rows)
   \<and> (getFirestoreFn e ''collection'' \<and> getFirestoreFn e ''getDocs'' \<and> db e
        \<and> getDocsError e = None \<longrightarrow> (\<exists>rs. fetchAdminData e tab st = AdminData rs))"
proof -
  have grand: "mset rows = mset (filter (\<lambda>d. isGrandEligible (snd d)) (orders st))
      \<and> set rows = {d \<in> set (orders st). isGrandEligible (snd d)}
      \<and> sorted_wrt (\<lambda>a b. rowSeconds a \<ge> rowSeconds b) rows"
    if f: "fetchAdminData e ''grand'' st = AdminData rows"
  proof -
    have rows: "rows = sortBy compareRows (filter (\<lambda>d. isGrandEligible (snd d)) (orders st))"
      using fetchAdminData_rows [OF f] by simp
    have m: "mset rows = mset (filter (\<lambda>d. isGrandEligible (snd d)) (orders st))"
      unfolding rows by (rule mset_sortBy)
    have "set rows = set (filter (\<lambda>d. isGrandEligible (snd d)) (orders st))"
      using m by (rule mset_eq_setD)
    then have s: "set rows = {d \<in> set (orders st). isGrandEligible (snd d)}" by simp
    have "sorted_wrt (\<lambda>a b. rowSeconds a \<ge> rowSeconds b) rows"
      unfolding rows by (rule newest_first_sortBy)
    then show ?thesis using m s by simp
  qed
  have instant: "mset rows = mset (filter (\<lambda>d. scratchPrizeType (snd d) = ''win'') (orders st))
      \<and> set rows = {d \<in> set (orders st). scratchPrizeType (snd d) = ''win''}
      \<and> sorted_wrt (\<lambda>a b. rowSeconds a \<ge> rowSeconds b) rows"
    if f: "fetchAdminData e ''instant'' st = AdminData rows"
  proof -
    have rows: "rows = sortBy compareRows
                         (filter (\<lambda>d. scratchPrizeType (snd d) = ''win'') (orders st))"
      using fetchAdminData_rows [OF f] by simp
    have m: "mset rows = mset (filter (\<lambda>d. scratchPrizeType (snd d) = ''win'') (orders st))"
      unfolding rows by (rule mset_sortBy)
    have "set rows = set (filter (\<lambda>d. scratchPrizeType (snd d) = ''win'') (orders st))"
      using m by (rule mset_eq_setD)
    then have s: "set rows = {d \<in> set (orders st). scratchPrizeType (snd d) = ''win''}" by simp
    have "sorted_wrt (\<lambda>a b. rowSeconds a \<ge> rowSeconds b) rows"
      unfolding rows by (rule newest_first_sortBy)
    then show ?thesis using m s by simp
  qed
  have ready: "\<exists>rs. fetchAdminData e tab st = AdminData rs"
    if "getFirestoreFn e ''collection'' \<and> getFirestoreFn e ''getDocs'' \<and> db e
        \<and> getDocsError e = None"
    using that fetchAdminData_ready by blast
  show ?thesis using grand instant ready by blast
qed

lemma admin_grand_sample:
  "fetchAdminData readyEnv ''grand'' adminStore =
     AdminData [orders adminStore ! 2, orders adminStore ! 0]"
  by (simp add: fetchAdminData_def Let_def getFirestoreFn_def readyEnv_def adminStore_def
      sortBy_def compareRows_def rowSeconds_def newOrder_def)

lemma admin_instant_sample:
  "fetchAdminData readyEnv ''instant'' adminStore =
     AdminData [orders adminStore ! 1, orders adminStore ! 2]"
  by (simp add: fetchAdminData_def Let_def getFirestoreFn_def readyEnv_def adminStore_def
      sortBy_def compareRows_def rowSeconds_def newOrder_def PRIZES_def)

theorem admin_lists_witness:
  "fetchAdminData readyEnv ''grand'' adminStore
     = AdminData [orders adminStore ! 2, orders adminStore ! 0]
   \<and> fetchAdminData readyEnv ''instant'' adminStore
     = AdminData [orders adminStore ! 1, orders adminStore ! 2]
   \<and> set [orders adminStore ! 2, orders adminStore ! 0]
       = {d \<in> set (orders adminStore). isGrandEligible (snd d)}
   \<and> set [orders adminStore ! 1, orders adminStore ! 2]
       = {d \<in> set (orders adminStore). scratchPrizeType (snd d) = ''win''}
   \<and> sorted_wrt (\<lambda>a b. rowSeconds a \<ge> rowSeconds b) [orders adminStore ! 2, orders adminStore ! 0]
   \<and> sorted_wrt (\<lambda>a b. rowSeconds a \<ge> rowSeconds b) [orders adminStore ! 1, orders adminStore ! 2]"
  using admin_lists [of readyEnv adminStore "[orders adminStore ! 2, orders adminStore ! 0]" "''grand''"]
    admin_lists [of readyEnv adminStore "[orders adminStore ! 1, orders adminStore ! 2]" "''grand''"]
    admin_grand_sample admin_instant_sample
  by blast

section \<open>The persisted order\<close>

text \<open>
  C10, as the code has it.  The order a registration persists has \<open>prizeSent = false\<close>,
  the id, name and type of the prize, and the serial.  The object given to \<open>addDoc\<close>
  has no key \<open>note\<close>: the field is absent until \<open>updateNote\<close> writes it, and the
  admin table shows an absent note as the empty string.
\<close>

theorem persisted_order_fields:
  assumes reg: "handleSubmit e user fd serialRand prizeRand st = (Registered i serial pz, st')"
  shows "\<exists>d. orders st' = orders st @ [(i, d)]
           \<and> prizeSent d = False
           \<and> orderNote d = None \<and> noteValue d = []
           \<and> scratchPrizeId d = p_id pz \<and> scratchPrizeName d = p_name pz
           \<and> scratchPrizeType d = p_type pz
           \<and> grandDrawSerial d = serial"
proof -
  obtain uid where
    st': "st' = st\<lparr>orders := orders st
                       @ [(i, newOrder e uid fd (duration fd \<ge> 4) serial pz)]\<rparr>"
    using handleSubmit_Registered [OF reg] by blast
  let ?d = "newOrder e uid fd (duration fd \<ge> 4) serial pz"
  have "orders st' = orders st @ [(i, ?d)]" using st' by simp
  moreover have "prizeSent ?d = False \<and> orderNote ?d = None \<and> noteValue ?d = []
           \<and> scratchPrizeId ?d = p_id pz \<and> scratchPrizeName ?d = p_name pz
           \<and> scratchPrizeType ?d = p_type pz \<and> grandDrawSerial ?d = serial"
    by (simp add: newOrder_def noteValue_def)
  ultimately show ?thesis by blast
qed

theorem persisted_order_fields_witness:
  "\<exists>d. orders (snd (handleSubmit readyEnv (Some ''demo-user-2'') sampleForm (1 / 2) (1 / 2)
                       emptyStore)) = [(''order-2'', d)]
       \<and> \<not> prizeSent d \<and> orderNote d = None \<and> noteValue d = []
       \<and> scratchPrizeId d = ''none_2'' \<and> scratchPrizeType d = ''none''
       \<and> grandDrawSerial d = Some ''550000''"
proof -
  have empty: "orders emptyStore = []" by (simp add: emptyStore_def)
  have prize: "p_id (PRIZES ! 1) = ''none_2''" "p_type (PRIZES ! 1) = ''none''"
    by (simp_all add: PRIZES_def)
  obtain d where "orders (snd (handleSubmit readyEnv (Some ''demo-user-2'') sampleForm
                        (1 / 2) (1 / 2) emptyStore)) = orders emptyStore @ [(''order-2'', d)]"
      "prizeSent d = False" "orderNote d = None" "noteValue d = []"
      "scratchPrizeId d = p_id (PRIZES ! 1)" "scratchPrizeType d = p_type (PRIZES ! 1)"
      "grandDrawSerial d = Some ''550000''"
    using persisted_order_fields [OF sample_registration]
    unfolding sample_registration snd_conv by blast
  then show ?thesis using empty prize by auto
qed

text \<open>
  C10 as stated fails: the persisted order has no note at all, which is not a note equal
  to the empty string.
\<close>

theorem persisted_note_counterexample:
  "length (orders (snd (handleSubmit readyEnv (Some ''demo-user-2'') sampleForm (1 / 2) (1 / 2)
                          emptyStore))) = 1
   \<and> orderNote (snd (last (orders (snd (handleSubmit readyEnv (Some ''demo-user-2'') sampleForm
                                            (1 / 2) (1 / 2) emptyStore))))) = None
   \<and> orderNote (snd (last (orders (snd (handleSubmit readyEnv (Some ''demo-user-2'') sampleForm
                                            (1 / 2) (1 / 2) emptyStore))))) \<noteq> Some []"
  by (simp add: sample_registration newOrder_def)

section \<open>ScratchCard: the reveal\<close>



lemma checkReveal_isDrawing: "isDrawing (checkReveal c) = isDrawing c"
  by (simp add: checkReveal_def)

















text \<open>
  \<open>endDraw\<close> calls \<open>checkReveal\<close> without looking at the ref, so a release on a
  sufficiently cleared canvas sets one more timer for \<open>onComplete\<close>, also when the
  component is Revealed already.  The state \<open>isRevealed\<close> is not changed by that.
\<close>

lemma release_sets_timer:
  "clearedPercent (pixels c) > 75 \<Longrightarrow>
   completeTimers (dispatch Up c) = completeTimers c + 1 \<and> isRevealed (dispatch Up c)"
  by (simp add: dispatch_def syncRef_def endDraw_def checkReveal_def)

end
